theory Spec2Isabelle
  imports Complex_Main
begin

section \<open>Values of a float64 Series\<close>

text \<open>
  The program (\<^verbatim>\<open>stock_indicator_monitor.py\<close>) computes on pandas Series of float64.
  A value is modelled as an exact real number or one of the three IEEE special values.
  Arithmetic on finite values is exact (no rounding, no overflow) and the two zeros are
  identified; the special values follow IEEE 754: every operation on NaN gives NaN,
  \<open>inf - inf\<close>, \<open>0 * inf\<close>, \<open>0 / 0\<close> and \<open>inf / inf\<close> give NaN, a non-zero finite value
  divided by zero gives an infinity, and every comparison with NaN is false.
\<close>

datatype fval = Fin real | PInf | NInf | NaN

datatype py_error = ValueError | IndexError

datatype kind = Buy | Sell

fun fneg :: "fval \<Rightarrow> fval" where
  "fneg (Fin a) = Fin (- a)"
| "fneg PInf = NInf"
| "fneg NInf = PInf"
| "fneg NaN = NaN"

fun fadd :: "fval \<Rightarrow> fval \<Rightarrow> fval" where
  "fadd (Fin a) (Fin b) = Fin (a + b)"
| "fadd (Fin a) PInf = PInf"
| "fadd (Fin a) NInf = NInf"
| "fadd PInf (Fin b) = PInf"
| "fadd PInf PInf = PInf"
| "fadd PInf NInf = NaN"
| "fadd NInf (Fin b) = NInf"
| "fadd NInf PInf = NaN"
| "fadd NInf NInf = NInf"
| "fadd NaN y = NaN"
| "fadd x NaN = NaN"

definition fsub :: "fval \<Rightarrow> fval \<Rightarrow> fval" where
  "fsub x y = fadd x (fneg y)"

definition signed_inf :: "bool \<Rightarrow> fval" where
  "signed_inf positive = (if positive then PInf else NInf)"

fun fmul :: "fval \<Rightarrow> fval \<Rightarrow> fval" where
  "fmul (Fin a) (Fin b) = Fin (a * b)"
| "fmul (Fin a) PInf = (if a = 0 then NaN else signed_inf (0 < a))"
| "fmul (Fin a) NInf = (if a = 0 then NaN else signed_inf (a < 0))"
| "fmul PInf (Fin b) = (if b = 0 then NaN else signed_inf (0 < b))"
| "fmul NInf (Fin b) = (if b = 0 then NaN else signed_inf (b < 0))"
| "fmul PInf PInf = PInf"
| "fmul PInf NInf = NInf"
| "fmul NInf PInf = NInf"
| "fmul NInf NInf = PInf"
| "fmul NaN y = NaN"
| "fmul x NaN = NaN"

fun fdiv :: "fval \<Rightarrow> fval \<Rightarrow> fval" where
  "fdiv (Fin a) (Fin b) =
     (if b \<noteq> 0 then Fin (a / b) else if a = 0 then NaN else signed_inf (0 < a))"
| "fdiv (Fin a) PInf = Fin 0"
| "fdiv (Fin a) NInf = Fin 0"
| "fdiv PInf (Fin b) = signed_inf (0 \<le> b)"
| "fdiv NInf (Fin b) = signed_inf (b < 0)"
| "fdiv PInf PInf = NaN"
| "fdiv PInf NInf = NaN"
| "fdiv NInf PInf = NaN"
| "fdiv NInf NInf = NaN"
| "fdiv NaN y = NaN"
| "fdiv x NaN = NaN"

fun flt :: "fval \<Rightarrow> fval \<Rightarrow> bool" where
  "flt (Fin a) (Fin b) = (a < b)"
| "flt (Fin a) PInf = True"
| "flt NInf (Fin b) = True"
| "flt NInf PInf = True"
| "flt x y = False"

fun fle :: "fval \<Rightarrow> fval \<Rightarrow> bool" where
  "fle (Fin a) (Fin b) = (a \<le> b)"
| "fle (Fin a) PInf = True"
| "fle NInf (Fin b) = True"
| "fle NInf PInf = True"
| "fle PInf PInf = True"
| "fle NInf NInf = True"
| "fle x y = False"

definition fgt :: "fval \<Rightarrow> fval \<Rightarrow> bool" where
  "fgt x y = flt y x"

definition fge :: "fval \<Rightarrow> fval \<Rightarrow> bool" where
  "fge x y = fle y x"

text \<open>\<^verbatim>\<open>pd.notna\<close>: a value is missing exactly when it is NaN.\<close>

definition notna :: "fval \<Rightarrow> bool" where
  "notna x = (x \<noteq> NaN)"

section \<open>The pandas operations the program calls\<close>

subsection \<open>\<^verbatim>\<open>Series.ewm(span=s).mean()\<close>\<close>

text \<open>
  The program calls \<^verbatim>\<open>ewm(span=...)\<close> with every other argument at its default:
  \<^verbatim>\<open>adjust=True\<close>, \<^verbatim>\<open>ignore_na=False\<close>, \<^verbatim>\<open>min_periods=0\<close>. pandas rejects a span
  below 1 with a \<^verbatim>\<open>ValueError\<close> when the window object is built, takes
  \<open>alpha = 2 / (span + 1)\<close>, and computes the mean by one pass that carries the
  current average \<open>weighted\<close> and the sum of the weights \<open>old_wt\<close>:
  \<^verbatim>\<open>
    old_wt_factor = 1 - alpha;  new_wt = 1            # adjust=True
    weighted = vals[0];  out[0] = weighted;  old_wt = 1
    for i in 1 .. N-1:
        cur = vals[i]
        if weighted is not NaN:
            old_wt *= old_wt_factor                   # ignore_na=False
            if cur is not NaN:
                if weighted != cur:
                    weighted = (old_wt * weighted + new_wt * cur) / (old_wt + new_wt)
                old_wt += new_wt
        elif cur is not NaN:
            weighted = cur
        out[i] = weighted
  \<close>
\<close>

fun ewm_loop :: "real \<Rightarrow> fval \<Rightarrow> real \<Rightarrow> fval list \<Rightarrow> fval list" where
  "ewm_loop old_wt_factor weighted old_wt [] = []"
| "ewm_loop old_wt_factor weighted old_wt (cur # rest) =
     (if weighted \<noteq> NaN then
        (if cur \<noteq> NaN then
           (let weighted' =
                  (if weighted \<noteq> cur
                   then fdiv (fadd (fmul (Fin (old_wt * old_wt_factor)) weighted)
                                   (fmul (Fin 1) cur))
                             (Fin (old_wt * old_wt_factor + 1))
                   else weighted)
            in weighted' # ewm_loop old_wt_factor weighted' (old_wt * old_wt_factor + 1) rest)
         else weighted # ewm_loop old_wt_factor weighted (old_wt * old_wt_factor) rest)
      else if cur \<noteq> NaN then cur # ewm_loop old_wt_factor cur old_wt rest
      else weighted # ewm_loop old_wt_factor weighted old_wt rest)"

definition ewm_mean :: "int \<Rightarrow> fval list \<Rightarrow> py_error + fval list" where
  "ewm_mean spn vals =
     (if spn < 1 then Inl ValueError
      else Inr (case vals of
                  [] \<Rightarrow> []
                | v # rest \<Rightarrow> v # ewm_loop (1 - 2 / (real_of_int spn + 1)) v 1 rest))"

subsection \<open>\<^verbatim>\<open>Series.diff()\<close>, \<^verbatim>\<open>Series.where(cond, other)\<close>, element-wise arithmetic\<close>

text \<open>\<^verbatim>\<open>diff()\<close>: NaN at index 0, then \<open>x[i] - x[i-1]\<close>.\<close>

definition diff :: "fval list \<Rightarrow> fval list" where
  "diff xs = (case xs of [] \<Rightarrow> [] | x # rest \<Rightarrow> NaN # map2 fsub rest xs)"

text \<open>\<^verbatim>\<open>where(cond, other)\<close> keeps a value where the condition is true and puts
  \<open>other\<close> elsewhere; a comparison with NaN is false, so a NaN entry is replaced too.\<close>

definition series_where :: "(fval \<Rightarrow> bool) \<Rightarrow> fval \<Rightarrow> fval list \<Rightarrow> fval list" where
  "series_where cond other xs = map (\<lambda>x. if cond x then x else other) xs"

subsection \<open>\<^verbatim>\<open>Series.rolling(window=w).mean()\<close>\<close>

text \<open>
  A fixed window of \<open>w\<close> values ending at the current index, with \<^verbatim>\<open>min_periods\<close> at
  its default, the window size. pandas rejects a negative window with a
  \<^verbatim>\<open>ValueError\<close> and accepts 0. Infinite values are treated as missing. The mean at
  index \<open>i\<close> is the sum of the observations in \<open>vals[max(i+1-w,0) : i+1]\<close> divided by
  their number \<open>nobs\<close>, provided \<open>nobs \<ge> min_periods\<close> and \<open>nobs > 0\<close>; it is NaN otherwise.
\<close>

fun observations :: "fval list \<Rightarrow> real list" where
  "observations [] = []"
| "observations (Fin a # xs) = a # observations xs"
| "observations (x # xs) = observations xs"

definition calc_mean :: "nat \<Rightarrow> fval list \<Rightarrow> fval" where
  "calc_mean minp win =
     (let obs = observations win; nobs = length obs
      in if minp \<le> nobs \<and> 0 < nobs then Fin (sum_list obs / real nobs) else NaN)"

definition rolling_mean :: "int \<Rightarrow> fval list \<Rightarrow> py_error + fval list" where
  "rolling_mean window vals =
     (if window < 0 then Inl ValueError
      else Inr (map (\<lambda>i. calc_mean (nat window) (drop (Suc i - nat window) (take (Suc i) vals)))
                    [0..<length vals]))"

section \<open>The indicator engines\<close>

text \<open>\<^verbatim>\<open>calculate_macd(data, fast, slow, signal)\<close>; the argument is the column
  \<^verbatim>\<open>data['Close']\<close>.\<close>

definition calculate_macd ::
  "fval list \<Rightarrow> int \<Rightarrow> int \<Rightarrow> int \<Rightarrow> py_error + (fval list \<times> fval list \<times> fval list)" where
  "calculate_macd close_prices fast slow signal =
     (case ewm_mean fast close_prices of
        Inl e \<Rightarrow> Inl e
      | Inr ema_fast \<Rightarrow>
     (case ewm_mean slow close_prices of
        Inl e \<Rightarrow> Inl e
      | Inr ema_slow \<Rightarrow>
     (let macd_line = map2 fsub ema_fast ema_slow
      in case ewm_mean signal macd_line of
           Inl e \<Rightarrow> Inl e
         | Inr signal_line \<Rightarrow>
             Inr (macd_line, signal_line, map2 fsub macd_line signal_line))))"

text \<open>\<^verbatim>\<open>calculate_rsi(data, period)\<close>, with its local series \<open>gain\<close> and \<open>loss\<close> named.\<close>

definition gain :: "fval list \<Rightarrow> fval list" where
  "gain close_prices = series_where (\<lambda>d. fgt d (Fin 0)) (Fin 0) (diff close_prices)"

definition loss :: "fval list \<Rightarrow> fval list" where
  "loss close_prices = map fneg (series_where (\<lambda>d. flt d (Fin 0)) (Fin 0) (diff close_prices))"

definition rsi_value :: "fval \<Rightarrow> fval \<Rightarrow> fval" where
  "rsi_value avg_gain avg_loss =
     (let rs = fdiv avg_gain avg_loss
      in fsub (Fin 100) (fdiv (Fin 100) (fadd (Fin 1) rs)))"

definition calculate_rsi :: "fval list \<Rightarrow> int \<Rightarrow> py_error + fval list" where
  "calculate_rsi close_prices period =
     (case rolling_mean period (gain close_prices) of
        Inl e \<Rightarrow> Inl e
      | Inr avg_gain \<Rightarrow>
     (case rolling_mean period (loss close_prices) of
        Inl e \<Rightarrow> Inl e
      | Inr avg_loss \<Rightarrow> Inr (map2 rsi_value avg_gain avg_loss)))"

section \<open>The signal detectors\<close>

text \<open>
  \<^verbatim>\<open>detect_macd_signals\<close> reads \<^verbatim>\<open>signal_line.iloc[i-1]\<close> and \<^verbatim>\<open>signal_line.iloc[i]\<close>
  for \<open>i\<close> in \<^verbatim>\<open>range(1, len(macd_line))\<close>; an index beyond the end of \<open>signal_line\<close>
  raises \<^verbatim>\<open>IndexError\<close>. Python's \<^verbatim>\<open>and\<close> evaluates its right operand only when the
  left one is true, so \<^verbatim>\<open>signal_line.iloc[i]\<close> is read only after a true left comparison.
\<close>

definition macd_cross :: "fval list \<Rightarrow> fval list \<Rightarrow> nat \<Rightarrow> py_error + kind option" where
  "macd_cross macd_line signal_line i =
     (if length signal_line \<le> i - 1 then Inl IndexError
      else if fle (macd_line ! (i - 1)) (signal_line ! (i - 1)) \<and> length signal_line \<le> i
        then Inl IndexError
      else if fle (macd_line ! (i - 1)) (signal_line ! (i - 1))
              \<and> fgt (macd_line ! i) (signal_line ! i)
        then Inr (Some Buy)
      else if fge (macd_line ! (i - 1)) (signal_line ! (i - 1)) \<and> length signal_line \<le> i
        then Inl IndexError
      else if fge (macd_line ! (i - 1)) (signal_line ! (i - 1))
              \<and> flt (macd_line ! i) (signal_line ! i)
        then Inr (Some Sell)
      else Inr None)"

fun macd_loop ::
  "fval list \<Rightarrow> fval list \<Rightarrow> nat list \<Rightarrow> nat list \<times> nat list \<Rightarrow> py_error + (nat list \<times> nat list)" where
  "macd_loop macd_line signal_line [] acc = Inr acc"
| "macd_loop macd_line signal_line (i # rest) (buy_signals, sell_signals) =
     (case macd_cross macd_line signal_line i of
        Inl e \<Rightarrow> Inl e
      | Inr (Some Buy) \<Rightarrow> macd_loop macd_line signal_line rest (buy_signals @ [i], sell_signals)
      | Inr (Some Sell) \<Rightarrow> macd_loop macd_line signal_line rest (buy_signals, sell_signals @ [i])
      | Inr None \<Rightarrow> macd_loop macd_line signal_line rest (buy_signals, sell_signals))"

text \<open>The outcome of the \<^verbatim>\<open>if\<close>/\<^verbatim>\<open>elif\<close> chain at an index where every read of
  \<open>signal_line\<close> is in range.\<close>

definition macd_kind :: "fval list \<Rightarrow> fval list \<Rightarrow> nat \<Rightarrow> kind option" where
  "macd_kind m s i =
     (if fle (m ! (i - 1)) (s ! (i - 1)) \<and> fgt (m ! i) (s ! i) then Some Buy
      else if fge (m ! (i - 1)) (s ! (i - 1)) \<and> flt (m ! i) (s ! i) then Some Sell
      else None)"

definition detect_macd_signals ::
  "fval list \<Rightarrow> fval list \<Rightarrow> py_error + (nat list \<times> nat list)" where
  "detect_macd_signals macd_line signal_line =
     macd_loop macd_line signal_line [1..<length macd_line] ([], [])"

definition rsi_cross :: "fval list \<Rightarrow> nat \<Rightarrow> kind option" where
  "rsi_cross rsi_data i =
     (if notna (rsi_data ! (i - 1)) \<and> notna (rsi_data ! i) then
        (if fle (rsi_data ! (i - 1)) (Fin 30) \<and> fgt (rsi_data ! i) (Fin 30) then Some Buy
         else if fge (rsi_data ! (i - 1)) (Fin 70) \<and> flt (rsi_data ! i) (Fin 70) then Some Sell
         else None)
      else None)"

fun rsi_loop :: "fval list \<Rightarrow> nat list \<Rightarrow> nat list \<times> nat list \<Rightarrow> nat list \<times> nat list" where
  "rsi_loop rsi_data [] acc = acc"
| "rsi_loop rsi_data (i # rest) (buy_signals, sell_signals) =
     (case rsi_cross rsi_data i of
        Some Buy \<Rightarrow> rsi_loop rsi_data rest (buy_signals @ [i], sell_signals)
      | Some Sell \<Rightarrow> rsi_loop rsi_data rest (buy_signals, sell_signals @ [i])
      | None \<Rightarrow> rsi_loop rsi_data rest (buy_signals, sell_signals))"

definition detect_rsi_signals :: "fval list \<Rightarrow> nat list \<times> nat list" where
  "detect_rsi_signals rsi_data = rsi_loop rsi_data [1..<length rsi_data] ([], [])"

section \<open>The combined signals of \<^verbatim>\<open>analyze_stock_indicators\<close>\<close>

text \<open>
  Lines 213 to 231 of the program pair the MACD and the RSI signals. The index of the data
  frame is a sequence of dates; a date is modelled as its day number, so that
  \<^verbatim>\<open>(date - rsi_date).days\<close> is the difference of two integers, and the appended string
  \<^verbatim>\<open>date.strftime('%Y-%m-%d')\<close> is represented by the date. The program writes the
  tolerance as the literal 2 in both loops; the loops are modelled once, with the literal
  as the parameter \<open>tolerance\<close>, and \<open>combined_signals\<close> instantiates it with 2 for the
  buy and for the sell signals, as the program does.
\<close>

fun rsi_dates_loop :: "int \<Rightarrow> int \<Rightarrow> int list \<Rightarrow> int list \<Rightarrow> int list" where
  "rsi_dates_loop tolerance date [] combined = combined"
| "rsi_dates_loop tolerance date (rsi_date # rest) combined =
     rsi_dates_loop tolerance date rest
       (if \<bar>date - rsi_date\<bar> \<le> tolerance then combined @ [date] else combined)"

fun macd_dates_loop :: "int \<Rightarrow> int list \<Rightarrow> nat list \<Rightarrow> nat list \<Rightarrow> int list \<Rightarrow> int list" where
  "macd_dates_loop tolerance index [] rsi_signals combined = combined"
| "macd_dates_loop tolerance index (date_idx # rest) rsi_signals combined =
     macd_dates_loop tolerance index rest rsi_signals
       (rsi_dates_loop tolerance (index ! date_idx) (map (\<lambda>idx. index ! idx) rsi_signals) combined)"

definition combine_signals :: "int \<Rightarrow> int list \<Rightarrow> nat list \<Rightarrow> nat list \<Rightarrow> int list" where
  "combine_signals tolerance index macd_signals rsi_signals =
     macd_dates_loop tolerance index macd_signals rsi_signals []"

definition combined_signals ::
  "int list \<Rightarrow> nat list \<times> nat list \<Rightarrow> nat list \<times> nat list \<Rightarrow> int list \<times> int list" where
  "combined_signals index macd rsi =
     (combine_signals 2 index (fst macd) (fst rsi), combine_signals 2 index (snd macd) (snd rsi))"

section \<open>Auxiliary functions for the proofs\<close>

text \<open>
  On a series without NaN or infinite entries the pass of \<open>ewm_loop\<close> stays within the
  finite values: \<open>ewm_fin\<close> is that pass on real numbers and \<open>ewm_values\<close> the resulting
  series (lemma \<open>ewm_mean_finite\<close>). \<open>weight_sum f k\<close> is the value of \<open>old_wt\<close> after
  \<open>k\<close> steps, the sum of the weights \<open>f ^ j\<close> for \<open>j \<le> k\<close> (lemma \<open>weight_sum_eq\<close>).
\<close>

fun ewm_fin :: "real \<Rightarrow> real \<Rightarrow> real \<Rightarrow> real list \<Rightarrow> real list" where
  "ewm_fin f w d [] = []"
| "ewm_fin f w d (x # xs) =
     (d * f * w + x) / (d * f + 1) # ewm_fin f ((d * f * w + x) / (d * f + 1)) (d * f + 1) xs"

definition ewm_values :: "int \<Rightarrow> real list \<Rightarrow> real list" where
  "ewm_values spn xs =
     (case xs of [] \<Rightarrow> [] | x # rest \<Rightarrow> x # ewm_fin (1 - 2 / (real_of_int spn + 1)) x 1 rest)"

fun weight_sum :: "real \<Rightarrow> nat \<Rightarrow> real" where
  "weight_sum f 0 = 1"
| "weight_sum f (Suc k) = weight_sum f k * f + 1"

section \<open>Comparisons and the detectors\<close>

lemma flt_NaN: "\<not> flt NaN y" "\<not> flt x NaN"
  by (cases y; simp) (cases x; simp)

lemma fle_NaN: "\<not> fle NaN y" "\<not> fle x NaN"
  by (cases y; simp) (cases x; simp)

lemma flt_irrefl: "\<not> flt x x"
  by (cases x) simp_all

lemma flt_asym: "flt x y \<Longrightarrow> \<not> flt y x"
  by (cases x; cases y) simp_all

lemma macd_cross_aligned:
  assumes "1 \<le> i" and "i < length signal_line"
  shows "macd_cross macd_line signal_line i =
     Inr (if fle (macd_line ! (i - 1)) (signal_line ! (i - 1))
             \<and> fgt (macd_line ! i) (signal_line ! i) then Some Buy
          else if fge (macd_line ! (i - 1)) (signal_line ! (i - 1))
             \<and> flt (macd_line ! i) (signal_line ! i) then Some Sell
          else None)"
proof -
  have "\<not> length signal_line \<le> i - 1" and "\<not> length signal_line \<le> i"
    using assms by arith+
  then show ?thesis by (simp add: macd_cross_def)
qed

lemma macd_loop_filter:
  assumes "\<forall>i\<in>set is. macd_cross m s i = Inr (f i)"
  shows "macd_loop m s is (b, sl) =
     Inr (b @ filter (\<lambda>i. f i = Some Buy) is, sl @ filter (\<lambda>i. f i = Some Sell) is)"
  using assms
proof (induction "is" arbitrary: b sl)
  case Nil
  then show ?case by simp
next
  case (Cons i rest)
  then show ?case
    by (cases "f i"; cases "the (f i)") auto
qed

lemma rsi_loop_filter:
  "rsi_loop r is (b, sl) =
     (b @ filter (\<lambda>i. rsi_cross r i = Some Buy) is, sl @ filter (\<lambda>i. rsi_cross r i = Some Sell) is)"
proof (induction "is" arbitrary: b sl)
  case Nil
  then show ?case by simp
next
  case (Cons i rest)
  then show ?case
    by (cases "rsi_cross r i"; cases "the (rsi_cross r i)") auto
qed

lemma detect_macd_signals_aligned:
  assumes "length s = length m"
  shows "detect_macd_signals m s =
     Inr (filter (\<lambda>i. macd_kind m s i = Some Buy) [1..<length m],
          filter (\<lambda>i. macd_kind m s i = Some Sell) [1..<length m])"
proof -
  have "\<forall>i\<in>set [1..<length m]. macd_cross m s i = Inr (macd_kind m s i)"
    using assms by (simp add: macd_cross_aligned macd_kind_def)
  from macd_loop_filter [OF this, of "[]" "[]"] show ?thesis
    by (simp add: detect_macd_signals_def)
qed

lemma detect_rsi_signals_filter:
  "detect_rsi_signals r =
     (filter (\<lambda>i. rsi_cross r i = Some Buy) [1..<length r],
      filter (\<lambda>i. rsi_cross r i = Some Sell) [1..<length r])"
  by (simp add: detect_rsi_signals_def rsi_loop_filter)

lemma macd_kind_Buy:
  "macd_kind m s i = Some Buy \<longleftrightarrow> fle (m ! (i - 1)) (s ! (i - 1)) \<and> fgt (m ! i) (s ! i)"
  by (simp add: macd_kind_def)

lemma macd_kind_Sell:
  "macd_kind m s i = Some Sell \<longleftrightarrow> fge (m ! (i - 1)) (s ! (i - 1)) \<and> flt (m ! i) (s ! i)"
  by (auto simp: macd_kind_def fgt_def dest: flt_asym)

lemma rsi_cross_Buy:
  "rsi_cross r i = Some Buy \<longleftrightarrow> fle (r ! (i - 1)) (Fin 30) \<and> fgt (r ! i) (Fin 30)"
  by (auto simp: rsi_cross_def notna_def fgt_def fle_NaN flt_NaN)

lemma fle_30_not_fge_70: "fle x (Fin 30) \<Longrightarrow> \<not> fge x (Fin 70)"
  by (cases x) (simp_all add: fge_def)

lemma rsi_cross_Sell:
  "rsi_cross r i = Some Sell \<longleftrightarrow> fge (r ! (i - 1)) (Fin 70) \<and> flt (r ! i) (Fin 70)"
  by (auto simp: rsi_cross_def notna_def fge_def fle_NaN flt_NaN dest: fle_30_not_fge_70[unfolded fge_def])

text \<open>Every signal is an index of the series, and at least 1.\<close>

lemma detect_macd_signals_range:
  assumes "detect_macd_signals m s = Inr (buys, sells)" and "length s = length m"
  shows "set buys \<union> set sells \<subseteq> {1..<length m}"
  using assms by (auto simp: detect_macd_signals_aligned)

lemma detect_rsi_signals_range:
  "set (fst (detect_rsi_signals r)) \<union> set (snd (detect_rsi_signals r)) \<subseteq> {1..<length r}"
  by (auto simp: detect_rsi_signals_filter)

text \<open>
  Claim C4. At every index \<open>i\<close> from 1 to the end, \<open>detect_macd_signals\<close> (on two series
  of the same length) lists \<open>i\<close> as a buy signal exactly when
  \<open>macd_line[i-1] \<le> signal_line[i-1]\<close> and \<open>macd_line[i] > signal_line[i]\<close>, and as a sell
  signal exactly when \<open>macd_line[i-1] \<ge> signal_line[i-1]\<close> and
  \<open>macd_line[i] < signal_line[i]\<close>; \<open>detect_rsi_signals\<close> lists \<open>i\<close> as a buy signal exactly
  when \<open>rsi[i-1] \<le> 30\<close> and \<open>rsi[i] > 30\<close>, and as a sell signal exactly when
  \<open>rsi[i-1] \<ge> 70\<close> and \<open>rsi[i] < 70\<close>. Equality on the side after the crossing emits
  nothing: no MACD signal when the two lines are equal at \<open>i\<close>, no RSI buy at exactly 30
  and no RSI sell at exactly 70.
\<close>

theorem crossover_signals_exact:
  "(length signal_line = length macd_line \<and> 1 \<le> i \<and> i < length macd_line \<longrightarrow>
      (\<exists>buys sells. detect_macd_signals macd_line signal_line = Inr (buys, sells)
         \<and> (i \<in> set buys \<longleftrightarrow>
               fle (macd_line ! (i - 1)) (signal_line ! (i - 1)) \<and> fgt (macd_line ! i) (signal_line ! i))
         \<and> (i \<in> set sells \<longleftrightarrow>
               fge (macd_line ! (i - 1)) (signal_line ! (i - 1)) \<and> flt (macd_line ! i) (signal_line ! i))
         \<and> (macd_line ! i = signal_line ! i \<longrightarrow> i \<notin> set buys \<and> i \<notin> set sells)))
   \<and> (1 \<le> i \<and> i < length rsi_data \<longrightarrow>
        (i \<in> set (fst (detect_rsi_signals rsi_data)) \<longleftrightarrow>
            fle (rsi_data ! (i - 1)) (Fin 30) \<and> fgt (rsi_data ! i) (Fin 30))
      \<and> (i \<in> set (snd (detect_rsi_signals rsi_data)) \<longleftrightarrow>
            fge (rsi_data ! (i - 1)) (Fin 70) \<and> flt (rsi_data ! i) (Fin 70))
      \<and> (rsi_data ! i = Fin 30 \<longrightarrow> i \<notin> set (fst (detect_rsi_signals rsi_data)))
      \<and> (rsi_data ! i = Fin 70 \<longrightarrow> i \<notin> set (snd (detect_rsi_signals rsi_data))))"
proof (intro conjI impI)
  assume a: "length signal_line = length macd_line \<and> 1 \<le> i \<and> i < length macd_line"
  then have len: "length signal_line = length macd_line" and i: "i \<in> set [1..<length macd_line]"
    by simp_all
  show "\<exists>buys sells. detect_macd_signals macd_line signal_line = Inr (buys, sells)
         \<and> (i \<in> set buys \<longleftrightarrow>
               fle (macd_line ! (i - 1)) (signal_line ! (i - 1)) \<and> fgt (macd_line ! i) (signal_line ! i))
         \<and> (i \<in> set sells \<longleftrightarrow>
               fge (macd_line ! (i - 1)) (signal_line ! (i - 1)) \<and> flt (macd_line ! i) (signal_line ! i))
         \<and> (macd_line ! i = signal_line ! i \<longrightarrow> i \<notin> set buys \<and> i \<notin> set sells)"
    using i unfolding detect_macd_signals_aligned [OF len]
    by (auto simp: macd_kind_Buy macd_kind_Sell fgt_def flt_irrefl simp del: set_upt)
next
  assume a: "1 \<le> i \<and> i < length rsi_data"
  then have i: "i \<in> set [1..<length rsi_data]" by simp
  show "(i \<in> set (fst (detect_rsi_signals rsi_data)) \<longleftrightarrow>
            fle (rsi_data ! (i - 1)) (Fin 30) \<and> fgt (rsi_data ! i) (Fin 30))"
    using i by (simp add: detect_rsi_signals_filter rsi_cross_Buy del: set_upt)
  show "(i \<in> set (snd (detect_rsi_signals rsi_data)) \<longleftrightarrow>
            fge (rsi_data ! (i - 1)) (Fin 70) \<and> flt (rsi_data ! i) (Fin 70))"
    using i by (simp add: detect_rsi_signals_filter rsi_cross_Sell del: set_upt)
  show "i \<notin> set (fst (detect_rsi_signals rsi_data))" if "rsi_data ! i = Fin 30"
    using that by (simp add: detect_rsi_signals_filter rsi_cross_Buy fgt_def)
  show "i \<notin> set (snd (detect_rsi_signals rsi_data))" if "rsi_data ! i = Fin 70"
    using that by (simp add: detect_rsi_signals_filter rsi_cross_Sell)
qed

theorem crossover_signals_exact_witness:
  "length (map Fin [2, 1, 1, 1, 0]) = length (map Fin [1, 1, 2, 0, -1])
   \<and> (1::nat) \<le> 2 \<and> 2 < length (map Fin [1, 1, 2, 0, -1])
   \<and> 2 < length [Fin 80, Fin 20, Fin 40]
   \<and> detect_macd_signals (map Fin [1, 1, 2, 0, -1]) (map Fin [2, 1, 1, 1, 0]) = Inr ([2], [3])
   \<and> 2 \<in> set (fst (detect_rsi_signals [Fin 80, Fin 20, Fin 40]))
   \<and> 2 \<notin> set (snd (detect_rsi_signals [Fin 80, Fin 20, Fin 40]))"
  using crossover_signals_exact [of "map Fin [2, 1, 1, 1, 0]" "map Fin [1, 1, 2, 0, -1]" 2
      "[Fin 80, Fin 20, Fin 40]"]
  by (simp add: detect_macd_signals_aligned macd_kind_def fgt_def fge_def upt_rec)

lemma macd_kind_NaN:
  assumes "m ! (i - 1) = NaN \<or> s ! (i - 1) = NaN \<or> m ! i = NaN \<or> s ! i = NaN"
  shows "macd_kind m s i = None"
  using assms by (auto simp: macd_kind_def fgt_def fge_def fle_NaN flt_NaN)

lemma rsi_cross_NaN:
  assumes "r ! (i - 1) = NaN \<or> r ! i = NaN"
  shows "rsi_cross r i = None"
  using assms by (auto simp: rsi_cross_def notna_def)

text \<open>
  Claim C7. Whenever one of the indicator values read at \<open>i - 1\<close> or \<open>i\<close> is undefined
  (NaN), neither detector lists \<open>i\<close> as a signal, and no fault is raised:
  \<open>detect_macd_signals\<close> returns its two lists (on series of the same length) and
  \<open>detect_rsi_signals\<close> cannot fail.
\<close>

theorem undefined_values_skipped:
  "(length signal_line = length macd_line
      \<and> (macd_line ! (i - 1) = NaN \<or> signal_line ! (i - 1) = NaN
           \<or> macd_line ! i = NaN \<or> signal_line ! i = NaN) \<longrightarrow>
      (\<exists>buys sells. detect_macd_signals macd_line signal_line = Inr (buys, sells)
         \<and> i \<notin> set buys \<and> i \<notin> set sells))
   \<and> (rsi_data ! (i - 1) = NaN \<or> rsi_data ! i = NaN \<longrightarrow>
        i \<notin> set (fst (detect_rsi_signals rsi_data))
      \<and> i \<notin> set (snd (detect_rsi_signals rsi_data)))"
  by (simp add: detect_macd_signals_aligned detect_rsi_signals_filter macd_kind_NaN rsi_cross_NaN
      del: set_upt)

theorem undefined_values_skipped_witness:
  "length [Fin 1, Fin 1, Fin 0] = length [Fin 0, NaN, Fin 2]
   \<and> [Fin 0, NaN, Fin 2] ! (2 - 1) = NaN
   \<and> [Fin 20, NaN, Fin 40] ! (2 - 1) = NaN
   \<and> detect_macd_signals [Fin 0, NaN, Fin 2] [Fin 1, Fin 1, Fin 0] = Inr ([], [])
   \<and> detect_rsi_signals [Fin 20, NaN, Fin 40] = ([], [])"
  using undefined_values_skipped [of "[Fin 1, Fin 1, Fin 0]" "[Fin 0, NaN, Fin 2]" 2
      "[Fin 20, NaN, Fin 40]"]
  by (simp add: detect_macd_signals_aligned detect_rsi_signals_filter macd_kind_def rsi_cross_def
      notna_def fgt_def fge_def upt_rec)

section \<open>The combined signals\<close>




section \<open>The empty series\<close>

text \<open>
  Claim C8. On an empty series, \<open>calculate_macd\<close> (with spans that pandas accepts) returns
  three empty series and \<open>calculate_rsi\<close> (with a window that pandas accepts) returns an
  empty series; no fault is raised, and the detectors and the combination give empty lists.
\<close>

theorem empty_series_empty_outputs:
  "(1 \<le> fast \<and> 1 \<le> slow \<and> 1 \<le> signal \<longrightarrow> calculate_macd [] fast slow signal = Inr ([], [], []))
   \<and> (0 \<le> period \<longrightarrow> calculate_rsi [] period = Inr [])
   \<and> detect_macd_signals [] [] = Inr ([], [])
   \<and> detect_rsi_signals [] = ([], [])
   \<and> combined_signals index ([], []) ([], []) = ([], [])"
  by (simp add: calculate_macd_def ewm_mean_def calculate_rsi_def rolling_mean_def gain_def loss_def
      diff_def series_where_def detect_macd_signals_def detect_rsi_signals_def combined_signals_def
      combine_signals_def)

theorem empty_series_empty_outputs_witness:
  "(1::int) \<le> 12 \<and> (1::int) \<le> 26 \<and> (1::int) \<le> 9 \<and> (0::int) \<le> 14
   \<and> calculate_macd [] 12 26 9 = Inr ([], [], []) \<and> calculate_rsi [] 14 = Inr []"
  using empty_series_empty_outputs [of 12 26 9 14] by simp

section \<open>The exponential moving average and the MACD engine\<close>

lemma ewm_loop_finite:
  assumes "0 \<le> f" and "0 \<le> d"
  shows "ewm_loop f (Fin w) d (map Fin xs) = map Fin (ewm_fin f w d xs)"
  using assms
proof (induction xs arbitrary: w d)
  case Nil
  then show ?case by simp
next
  case (Cons x xs)
  have pos: "0 < d * f + 1"
    using Cons.prems by (simp add: add_nonneg_pos)
  have same: "(d * f * w + w) / (d * f + 1) = w"
    using pos by (simp add: field_simps)
  from pos have "0 \<le> d * f + 1" by simp
  from Cons.IH [OF Cons.prems(1) this] pos same show ?case
    by (auto simp: Let_def)
qed

lemma ewm_factor_nonneg: "1 \<le> spn \<Longrightarrow> 0 \<le> 1 - 2 / (real_of_int spn + 1)"
  by (simp add: field_simps)

lemma ewm_mean_finite:
  assumes "1 \<le> spn"
  shows "ewm_mean spn (map Fin xs) = Inr (map Fin (ewm_values spn xs))"
  using assms
  by (cases xs) (simp_all add: ewm_mean_def ewm_values_def ewm_loop_finite ewm_factor_nonneg)

lemma length_ewm_fin: "length (ewm_fin f w d xs) = length xs"
  by (induction xs arbitrary: w d) simp_all

lemma length_ewm_values: "length (ewm_values spn xs) = length xs"
  by (cases xs) (simp_all add: ewm_values_def length_ewm_fin)

lemma ewm_values_0: "xs \<noteq> [] \<Longrightarrow> ewm_values spn xs ! 0 = xs ! 0"
  by (cases xs) (simp_all add: ewm_values_def)

lemma weight_sum_eq: "weight_sum f k = (\<Sum>j\<le>k. f ^ j)"
proof (induction k)
  case 0
  then show ?case by simp
next
  case (Suc k)
  have "(\<Sum>j\<le>Suc k. f ^ j) = f ^ 0 + (\<Sum>j\<le>k. f ^ Suc j)"
    by (rule sum.atMost_Suc_shift)
  also have "\<dots> = 1 + f * (\<Sum>j\<le>k. f ^ j)"
    by (simp add: sum_distrib_left)
  finally have "(\<Sum>j\<le>Suc k. f ^ j) = 1 + f * (\<Sum>j\<le>k. f ^ j)" .
  with Suc show ?case by (simp add: mult.commute)
qed

lemma ewm_fin_nth:
  assumes "j < length xs"
  shows "ewm_fin f w (weight_sum f k) xs ! j =
     (xs ! j + f * weight_sum f (k + j) * (if j = 0 then w else ewm_fin f w (weight_sum f k) xs ! (j - 1)))
       / (1 + f * weight_sum f (k + j))"
  using assms
proof (induction xs arbitrary: w k j)
  case Nil
  then show ?case by simp
next
  case (Cons x xs)
  show ?case
  proof (cases j)
    case 0
    then show ?thesis by (simp add: algebra_simps)
  next
    case (Suc j')
    with Cons.prems have "j' < length xs" by simp
    from Cons.IH [OF this, of "(weight_sum f k * f * w + x) / (weight_sum f k * f + 1)" "Suc k"]
    show ?thesis using Suc by (cases j') (simp_all add: algebra_simps)
  qed
qed

lemma ewm_values_nth:
  assumes "1 \<le> i" and "i < length xs"
  shows "ewm_values spn xs ! i =
     (xs ! i + (1 - 2 / (real_of_int spn + 1)) * weight_sum (1 - 2 / (real_of_int spn + 1)) (i - 1)
                * ewm_values spn xs ! (i - 1))
       / (1 + (1 - 2 / (real_of_int spn + 1)) * weight_sum (1 - 2 / (real_of_int spn + 1)) (i - 1))"
proof (cases xs)
  case Nil
  with assms show ?thesis by simp
next
  case (Cons x rest)
  obtain j where j: "i = Suc j" using assms(1) by (cases i) simp_all
  with assms Cons have "j < length rest" by simp
  from ewm_fin_nth [OF this, of "1 - 2 / (real_of_int spn + 1)" x 0]
  show ?thesis using Cons j
    by (cases j) (simp_all add: ewm_values_def)
qed

lemma weight_sum_pos: "0 \<le> f \<Longrightarrow> 0 < weight_sum f k"
  by (induction k) (simp_all add: add_nonneg_pos)

lemma weighted_sum_Suc:
  "(\<Sum>k\<le>Suc i. f ^ k * xs ! (Suc i - k)) = xs ! Suc i + f * (\<Sum>k\<le>i. f ^ k * xs ! (i - k))"
    for f :: real
proof -
  have "(\<Sum>k\<le>Suc i. f ^ k * xs ! (Suc i - k))
      = f ^ 0 * xs ! (Suc i - 0) + (\<Sum>k\<le>i. f ^ Suc k * xs ! (Suc i - Suc k))"
    by (rule sum.atMost_Suc_shift)
  also have "\<dots> = xs ! Suc i + f * (\<Sum>k\<le>i. f ^ k * xs ! (i - k))"
    by (simp add: sum_distrib_left mult.assoc)
  finally show ?thesis .
qed

text \<open>
  The pass computes the weighted average that the pandas documentation gives for
  \<^verbatim>\<open>adjust=True\<close>: the prices up to \<open>i\<close>, the price \<open>k\<close> steps back weighted by
  \<open>(1 - \<alpha>) ^ k\<close>, divided by the sum of the weights.
\<close>

lemma ewm_values_weighted_average:
  assumes "1 \<le> spn" and "i < length xs"
  shows "ewm_values spn xs ! i =
     (\<Sum>k\<le>i. (1 - 2 / (real_of_int spn + 1)) ^ k * xs ! (i - k))
       / (\<Sum>k\<le>i. (1 - 2 / (real_of_int spn + 1)) ^ k)"
  using assms(2)
proof (induction i)
  case 0
  then show ?case by (simp add: ewm_values_0)
next
  case (Suc i)
  define f where "f = 1 - 2 / (real_of_int spn + 1)"
  have f: "0 \<le> f" using assms(1) by (simp add: f_def ewm_factor_nonneg)
  have w: "0 < weight_sum f i" by (rule weight_sum_pos [OF f])
  from Suc have ih: "ewm_values spn xs ! i = (\<Sum>k\<le>i. f ^ k * xs ! (i - k)) / weight_sum f i"
    by (simp add: f_def weight_sum_eq)
  have "ewm_values spn xs ! Suc i =
      (xs ! Suc i + f * weight_sum f i * ewm_values spn xs ! i) / (1 + f * weight_sum f i)"
    using ewm_values_nth [of "Suc i" xs spn] Suc.prems by (simp add: f_def)
  also have "f * weight_sum f i * ewm_values spn xs ! i = f * (\<Sum>k\<le>i. f ^ k * xs ! (i - k))"
    using w by (simp add: ih)
  also have "xs ! Suc i + f * (\<Sum>k\<le>i. f ^ k * xs ! (i - k)) = (\<Sum>k\<le>Suc i. f ^ k * xs ! (Suc i - k))"
    by (rule weighted_sum_Suc [symmetric])
  also have "1 + f * weight_sum f i = weight_sum f (Suc i)"
    by (simp add: mult.commute)
  finally show ?case
    by (simp only: f_def weight_sum_eq)
qed

text \<open>
  Claim C1, as amended. For every series of finite prices and every span of at least 1
  (the fast, the slow and the signal span alike, each of which \<open>calculate_macd\<close> passes
  to \<open>ewm_mean\<close>), the exponential moving average is defined at every index, starts at
  \<open>EMA[0] = price[0]\<close>, and at every index \<open>i \<ge> 1\<close> satisfies
  \<open>EMA[i] = (price[i] + (1 - \<alpha>) W[i-1] EMA[i-1]) / (1 + (1 - \<alpha>) W[i-1])\<close>, where
  \<open>\<alpha> = 2 / (span + 1)\<close> and \<open>W[k]\<close> is the sum of \<open>(1 - \<alpha>) ^ j\<close> for \<open>j \<le> k\<close>. This is
  the adjusted average of pandas (\<^verbatim>\<open>adjust=True\<close>, the default the program leaves in
  place): the weight of the new price is \<open>1 / W[i]\<close>, not the constant \<open>\<alpha>\<close>.
\<close>

theorem ewm_mean_adjusted_recursion:
  assumes "1 \<le> spn"
  shows "\<exists>ema. ewm_mean spn (map Fin prices) = Inr (map Fin ema)
           \<and> length ema = length prices
           \<and> (prices \<noteq> [] \<longrightarrow> ema ! 0 = prices ! 0)
           \<and> (\<forall>i. 1 \<le> i \<and> i < length prices \<longrightarrow>
                ema ! i =
                  (prices ! i + (1 - 2 / (real_of_int spn + 1))
                     * (\<Sum>j\<le>i - 1. (1 - 2 / (real_of_int spn + 1)) ^ j) * ema ! (i - 1))
                  / (1 + (1 - 2 / (real_of_int spn + 1))
                     * (\<Sum>j\<le>i - 1. (1 - 2 / (real_of_int spn + 1)) ^ j)))"
  using assms
  by (intro exI [of _ "ewm_values spn prices"])
     (simp add: ewm_mean_finite length_ewm_values ewm_values_0 ewm_values_nth
        weight_sum_eq [symmetric] del: weight_sum.simps)

text \<open>
  The recursion \<open>EMA[i] = \<alpha> price[i] + (1 - \<alpha>) EMA[i-1]\<close> of claim C1 fails: for the
  prices 1, 2 and span 3 (\<open>\<alpha> = 1/2\<close>) the program computes \<open>EMA[1] = 5/3\<close>, while the
  recursion gives \<open>3/2\<close>.
\<close>

theorem ewm_mean_anchored_recursion_counterexample:
  "ewm_mean 3 (map Fin [1, 2]) = Inr [Fin 1, Fin (5 / 3)]
   \<and> (5 / 3 :: real) \<noteq> 2 / (3 + 1) * 2 + (1 - 2 / (3 + 1)) * 1"
  by (simp add: ewm_mean_def)


theorem ewm_mean_adjusted_recursion_witness:
  "(1::int) \<le> 3
   \<and> (\<exists>ema. ewm_mean 3 (map Fin [1, 2]) = Inr (map Fin ema) \<and> length ema = 2
          \<and> ema ! 0 = 1 \<and> ema ! 1 = 5 / 3)"
proof -
  have h: "(1::int) \<le> 3" by simp
  from ewm_mean_adjusted_recursion [OF h, of "[1, 2]"] obtain ema where
    e: "ewm_mean 3 (map Fin [1, 2]) = Inr (map Fin ema)" "length ema = 2" "ema ! 0 = 1"
    and r: "\<forall>i. 1 \<le> i \<and> i < 2 \<longrightarrow>
              ema ! i = ([1, 2] ! i + (1 - 2 / (real_of_int 3 + 1))
                     * (\<Sum>j\<le>i - 1. (1 - 2 / (real_of_int 3 + 1)) ^ j) * ema ! (i - 1))
                  / (1 + (1 - 2 / (real_of_int 3 + 1))
                     * (\<Sum>j\<le>i - 1. (1 - 2 / (real_of_int 3 + 1)) ^ j))"
    by auto
  from r [rule_format, of 1] e(3) have "ema ! 1 = 5 / 3" by simp
  with h e show ?thesis by blast
qed





text \<open>
  Claim C6, as amended. \<open>calculate_macd\<close> rejects the call with a \<^verbatim>\<open>ValueError\<close>
  exactly when the fast, the slow or the signal span is below 1, and returns its three
  series otherwise, whatever the order of the fast and the slow span. \<open>calculate_rsi\<close>
  rejects the call exactly when the period is negative, and returns a series otherwise.
\<close>

theorem invalid_configuration_faults:
  "(calculate_macd close_prices fast slow signal = Inl ValueError
      \<longleftrightarrow> fast < 1 \<or> slow < 1 \<or> signal < 1)
   \<and> ((\<exists>out. calculate_macd close_prices fast slow signal = Inr out)
      \<longleftrightarrow> 1 \<le> fast \<and> 1 \<le> slow \<and> 1 \<le> signal)
   \<and> (calculate_rsi close_prices period = Inl ValueError \<longleftrightarrow> period < 0)
   \<and> ((\<exists>rsi. calculate_rsi close_prices period = Inr rsi) \<longleftrightarrow> 0 \<le> period)"
  by (auto simp: calculate_macd_def ewm_mean_def calculate_rsi_def rolling_mean_def Let_def)

theorem invalid_configuration_faults_witness:
  "calculate_macd [Fin 1, Fin 2] 0 26 9 = Inl ValueError
   \<and> calculate_macd [Fin 1, Fin 2] 12 26 (- 1) = Inl ValueError
   \<and> (\<exists>out. calculate_macd [Fin 1, Fin 2] 26 12 9 = Inr out)
   \<and> calculate_rsi [Fin 1, Fin 2] (- 1) = Inl ValueError
   \<and> (\<exists>rsi. calculate_rsi [Fin 1, Fin 2] 0 = Inr rsi)"
  using invalid_configuration_faults [of "[Fin 1, Fin 2]" 0 26 9 "- 1"]
    invalid_configuration_faults [of "[Fin 1, Fin 2]" 12 26 "- 1" 0]
    invalid_configuration_faults [of "[Fin 1, Fin 2]" 26 12 9 0]
  by simp

text \<open>
  Claim C6 fails on a fast span that is not below the slow span, and on the period 0:
  with the spans 3, 1, 1 \<open>calculate_macd\<close> returns indicator series, and with the period 0
  \<open>calculate_rsi\<close> returns a series whose entries are all undefined.
\<close>

theorem invalid_configuration_counterexample:
  "calculate_macd (map Fin [1, 2]) 3 1 1 =
     Inr ([Fin 0, Fin (- 1 / 3)], [Fin 0, Fin (- 1 / 3)], [Fin 0, Fin 0])
   \<and> calculate_rsi (map Fin [1, 2]) 0 = Inr [NaN, NaN]"
  by (simp add: calculate_macd_def ewm_mean_def fsub_def Let_def calculate_rsi_def rolling_mean_def
      gain_def loss_def diff_def series_where_def calc_mean_def rsi_value_def upt_rec)

section \<open>The RSI engine\<close>

lemma length_diff: "length (diff xs) = length xs"
  by (cases xs) (simp_all add: diff_def)

lemma length_gain: "length (gain xs) = length xs"
  by (simp add: gain_def series_where_def length_diff)

lemma length_loss: "length (loss xs) = length xs"
  by (simp add: loss_def series_where_def length_diff)

lemma rolling_mean_Inr:
  "rolling_mean window vals = Inr avg \<longleftrightarrow>
     0 \<le> window \<and> avg = map (\<lambda>i. calc_mean (nat window) (drop (Suc i - nat window) (take (Suc i) vals)))
                    [0..<length vals]"
  by (auto simp: rolling_mean_def)

lemma calculate_rsi_Inr:
  "calculate_rsi close_prices period = Inr rsi \<longleftrightarrow>
     (\<exists>avg_gain avg_loss. rolling_mean period (gain close_prices) = Inr avg_gain
        \<and> rolling_mean period (loss close_prices) = Inr avg_loss
        \<and> rsi = map2 rsi_value avg_gain avg_loss)"
  by (auto simp: calculate_rsi_def split: sum.splits)

lemma length_rolling_mean: "rolling_mean window vals = Inr avg \<Longrightarrow> length avg = length vals"
  by (simp add: rolling_mean_Inr)

lemma rolling_mean_nth:
  assumes "rolling_mean window vals = Inr avg" and "i < length vals"
  shows "avg ! i = calc_mean (nat window) (drop (Suc i - nat window) (take (Suc i) vals))"
  using assms by (simp add: rolling_mean_Inr)

lemma rolling_mean_zero_window:
  "rolling_mean 0 vals = Inr (replicate (length vals) NaN)"
  by (simp add: rolling_mean_def calc_mean_def map_replicate_const)

lemma calculate_rsi_nth:
  assumes "rolling_mean period (gain close_prices) = Inr avg_gain"
    and "rolling_mean period (loss close_prices) = Inr avg_loss"
    and "i < length close_prices"
  shows "\<exists>rsi. calculate_rsi close_prices period = Inr rsi \<and> length rsi = length close_prices
           \<and> rsi ! i = rsi_value (avg_gain ! i) (avg_loss ! i)"
  using assms
  by (simp add: calculate_rsi_def length_rolling_mean [OF assms(1)] length_rolling_mean [OF assms(2)]
      length_gain length_loss)

lemma length_observations: "length (observations win) \<le> length win"
  by (induction win rule: observations.induct) simp_all

lemma calc_mean_short: "length win < minp \<Longrightarrow> calc_mean minp win = NaN"
  using length_observations [of win] by (simp add: calc_mean_def Let_def)

lemma rolling_mean_warmup:
  assumes "rolling_mean window vals = Inr avg" and "i < length vals" and "int i < window - 1"
  shows "avg ! i = NaN"
proof -
  have "length (drop (Suc i - nat window) (take (Suc i) vals)) < nat window"
    using assms(2,3) by simp
  then show ?thesis
    by (simp add: rolling_mean_nth [OF assms(1,2)] calc_mean_short)
qed

lemma rsi_value_NaN: "rsi_value NaN y = NaN"
  by (simp add: rsi_value_def fsub_def)

lemma rsi_value_zero_zero: "rsi_value (Fin 0) (Fin 0) = NaN"
  by (simp add: rsi_value_def fsub_def)

lemma rsi_value_zero_loss: "g \<noteq> 0 \<Longrightarrow> rsi_value (Fin g) (Fin 0) = Fin 100"
  by (simp add: rsi_value_def fsub_def signed_inf_def)

text \<open>The sign of the infinity does not matter: with a negative zero as divisor the
  quotient is the negative infinity, and the RSI is 100 all the same.\<close>

lemma rsi_of_infinity:
  "fsub (Fin 100) (fdiv (Fin 100) (fadd (Fin 1) PInf)) = Fin 100"
  "fsub (Fin 100) (fdiv (Fin 100) (fadd (Fin 1) NInf)) = Fin 100"
  by (simp_all add: fsub_def)

lemma rsi_value_zero_gain: "l \<noteq> 0 \<Longrightarrow> rsi_value (Fin 0) (Fin l) = Fin 0"
  by (simp add: rsi_value_def fsub_def)

lemma gain_0: "xs \<noteq> [] \<Longrightarrow> gain xs ! 0 = Fin 0"
  by (cases xs) (simp_all add: gain_def diff_def series_where_def fgt_def)

lemma loss_0: "xs \<noteq> [] \<Longrightarrow> loss xs ! 0 = Fin 0"
  by (cases xs) (simp_all add: loss_def diff_def series_where_def)

text \<open>
  Claim C2, as amended. For every positive period, the RSI series has the length of the
  price series and is undefined (NaN) at each of the first \<open>period - 1\<close> indices, that is at
  the indices 0 to \<open>period - 2\<close>, and index 0 is always undefined; so the first defined
  value, if any, is at index \<open>period - 1\<close> or later. (\<^verbatim>\<open>where\<close> replaces the NaN that
  \<^verbatim>\<open>diff\<close> leaves at index 0 by the gain 0 and the loss 0, so the first full window ends
  at index \<open>period - 1\<close>.)
\<close>

theorem rsi_warmup:
  assumes "calculate_rsi close_prices period = Inr rsi" and "0 < period"
  shows "length rsi = length close_prices
       \<and> (\<forall>i. i < length close_prices \<and> int i < period - 1 \<longrightarrow> rsi ! i = NaN)
       \<and> (close_prices \<noteq> [] \<longrightarrow> rsi ! 0 = NaN)"
proof -
  from assms(1) obtain avg_gain avg_loss where
    g: "rolling_mean period (gain close_prices) = Inr avg_gain" and
    l: "rolling_mean period (loss close_prices) = Inr avg_loss"
    by (auto simp: calculate_rsi_Inr)
  have nth: "length rsi = length close_prices \<and> rsi ! i = rsi_value (avg_gain ! i) (avg_loss ! i)"
    if "i < length close_prices" for i
    using calculate_rsi_nth [OF g l that] assms(1) by auto
  have len: "length rsi = length close_prices"
    using assms(1) g l length_rolling_mean [OF g] length_rolling_mean [OF l]
    by (auto simp: calculate_rsi_Inr length_gain length_loss)
  have early: "rsi ! i = NaN" if "i < length close_prices" and "int i < period - 1" for i
  proof -
    have "avg_gain ! i = NaN"
      using rolling_mean_warmup [OF g] that by (simp add: length_gain)
    with nth [OF that(1)] show ?thesis by (simp add: rsi_value_NaN)
  qed
  have first: "rsi ! 0 = NaN" if ne: "close_prices \<noteq> []"
  proof (cases "period = 1")
    case True
    from ne have pos: "0 < length close_prices" by simp
    have "avg_gain ! 0 = Fin 0"
      using rolling_mean_nth [OF g, of 0] pos True gain_0 [OF ne]
      by (simp add: length_gain take_Suc_conv_app_nth calc_mean_def)
    moreover have "avg_loss ! 0 = Fin 0"
      using rolling_mean_nth [OF l, of 0] pos True loss_0 [OF ne]
      by (simp add: length_loss take_Suc_conv_app_nth calc_mean_def)
    ultimately show ?thesis
      using nth [OF pos] by (simp add: rsi_value_zero_zero)
  next
    case False
    with assms(2) have "int 0 < period - 1" by simp
    with early [of 0] ne show ?thesis by simp
  qed
  from len early first show ?thesis by blast
qed

theorem rsi_warmup_witness:
  "calculate_rsi (map Fin [5, 4, 3, 4]) 3 = Inr [NaN, NaN, Fin 0, Fin (100 / 3)] \<and> (0::int) < 3
   \<and> length [NaN, NaN, Fin 0, Fin (100 / 3)] = length (map Fin [5, 4, 3, 4 :: real])
   \<and> [NaN, NaN, Fin 0, Fin (100 / 3)] ! 0 = NaN \<and> [NaN, NaN, Fin 0, Fin (100 / 3)] ! 1 = NaN"
proof -
  have c: "calculate_rsi (map Fin [5, 4, 3, 4]) 3 = Inr [NaN, NaN, Fin 0, Fin (100 / 3)]"
    by (simp add: calculate_rsi_def rolling_mean_def gain_def loss_def diff_def series_where_def
        calc_mean_def rsi_value_def fsub_def fgt_def upt_rec)
  have p: "(0::int) < 3" by simp
  from rsi_warmup [OF c p] c p show ?thesis by simp
qed

text \<open>
  Claim C2 fails at index \<open>period - 1\<close>: for the prices 1, 2, 3 (of length \<open>period + 1\<close>) and
  period 2, the RSI at index 1 is defined, and equal to 100.
\<close>

theorem rsi_warmup_counterexample:
  "calculate_rsi (map Fin [1, 2, 3]) 2 = Inr [NaN, Fin 100, Fin 100]"
  by (simp add: calculate_rsi_def rolling_mean_def gain_def loss_def diff_def series_where_def
      calc_mean_def rsi_value_def fsub_def fgt_def signed_inf_def upt_rec)




section \<open>Monotone prices\<close>

lemma diff_steps:
  assumes "sorted_wrt R (p # rest)"
  shows "\<forall>d\<in>set (map2 fsub (map Fin rest) (map Fin (p # rest))). \<exists>a b. d = Fin (b - a) \<and> R a b"
  using assms
proof (induction rest arbitrary: p)
  case Nil
  then show ?case by simp
next
  case (Cons q rest)
  from Cons.prems have "R p q" and "sorted_wrt R (q # rest)" by simp_all
  with Cons.IH [of q] show ?case by (auto simp: fsub_def)
qed

lemma diff_monotone:
  assumes "sorted_wrt R prices"
  shows "\<forall>d\<in>set (diff (map Fin prices)). d = NaN \<or> (\<exists>a b. d = Fin (b - a) \<and> R a b)"
proof (cases prices)
  case Nil
  then show ?thesis by (simp add: diff_def)
next
  case (Cons p rest)
  with diff_steps [of R p rest] assms show ?thesis
    by (auto simp: diff_def)
qed

lemma loss_increasing:
  assumes "sorted_wrt (<) prices"
  shows "\<forall>x\<in>set (loss (map Fin prices)). x = Fin 0"
  using diff_monotone [OF assms] by (auto simp: loss_def series_where_def flt_NaN)

lemma gain_decreasing:
  assumes "sorted_wrt (\<lambda>a b. b < a) prices"
  shows "\<forall>x\<in>set (gain (map Fin prices)). x = Fin 0"
  using diff_monotone [OF assms] by (auto simp: gain_def series_where_def fgt_def flt_NaN)

lemma sum_list_observations_zero:
  "\<forall>x\<in>set win. x = Fin 0 \<Longrightarrow> sum_list (observations win) = 0"
  by (induction win) simp_all

lemma calc_mean_zeros:
  "\<forall>x\<in>set win. x = Fin 0 \<Longrightarrow> calc_mean minp win = NaN \<or> calc_mean minp win = Fin 0"
  by (simp add: calc_mean_def Let_def sum_list_observations_zero)

lemma calc_mean_cases: "calc_mean minp win = NaN \<or> (\<exists>m. calc_mean minp win = Fin m)"
  by (simp add: calc_mean_def Let_def)

lemma rolling_mean_zeros:
  assumes "rolling_mean window vals = Inr avg" and "\<forall>x\<in>set vals. x = Fin 0" and "i < length vals"
  shows "avg ! i = NaN \<or> avg ! i = Fin 0"
proof -
  have "\<forall>x\<in>set (drop (Suc i - nat window) (take (Suc i) vals)). x = Fin 0"
    using assms(2) by (auto dest!: in_set_dropD in_set_takeD)
  then show ?thesis
    by (simp add: rolling_mean_nth [OF assms(1,3)] calc_mean_zeros)
qed

lemma rolling_mean_cases:
  assumes "rolling_mean window vals = Inr avg" and "i < length vals"
  shows "avg ! i = NaN \<or> (\<exists>m. avg ! i = Fin m)"
  by (simp add: rolling_mean_nth [OF assms] calc_mean_cases)

lemma rsi_value_NaN_right: "rsi_value x NaN = NaN"
  by (cases x) (simp_all add: rsi_value_def fsub_def)

lemma rsi_value_loss_zero: "rsi_value (Fin g) (Fin 0) = NaN \<or> rsi_value (Fin g) (Fin 0) = Fin 100"
  using rsi_value_zero_loss [of g] rsi_value_zero_zero by (cases "g = 0") simp_all

lemma rsi_value_gain_zero: "rsi_value (Fin 0) (Fin l) = NaN \<or> rsi_value (Fin 0) (Fin l) = Fin 0"
  using rsi_value_zero_gain [of l] rsi_value_zero_zero by (cases "l = 0") simp_all

lemma no_sell_at_100:
  assumes "\<forall>i<length r. r ! i = NaN \<or> r ! i = Fin 100"
  shows "snd (detect_rsi_signals r) = []"
proof -
  have "rsi_cross r i \<noteq> Some Sell" if "i \<in> set [1..<length r]" for i
  proof -
    from that assms have "r ! i = NaN \<or> r ! i = Fin 100" by simp
    then show ?thesis by (auto simp: rsi_cross_Sell flt_NaN)
  qed
  then show ?thesis
    by (simp add: detect_rsi_signals_filter filter_empty_conv del: set_upt)
qed

lemma no_buy_at_0:
  assumes "\<forall>i<length r. r ! i = NaN \<or> r ! i = Fin 0"
  shows "fst (detect_rsi_signals r) = []"
proof -
  have "rsi_cross r i \<noteq> Some Buy" if "i \<in> set [1..<length r]" for i
  proof -
    from that assms have "r ! i = NaN \<or> r ! i = Fin 0" by simp
    then show ?thesis by (auto simp: rsi_cross_Buy fgt_def flt_NaN)
  qed
  then show ?thesis
    by (simp add: detect_rsi_signals_filter filter_empty_conv del: set_upt)
qed

text \<open>
  Claim C9. For every strictly increasing series of finite prices, \<open>detect_rsi_signals\<close>
  applied to the output of \<open>calculate_rsi\<close> lists no sell signal, and for every strictly
  decreasing series it lists no buy signal; \<open>calculate_rsi\<close> returns its series for every
  period that pandas accepts. (On increasing prices every loss is 0, so each RSI value is
  undefined or 100; on decreasing prices every gain is 0, so each RSI value is undefined
  or 0.)
\<close>

theorem monotone_prices_rsi_signals:
  assumes "0 \<le> period"
  shows "\<exists>rsi. calculate_rsi (map Fin prices) period = Inr rsi
           \<and> (sorted_wrt (<) prices \<longrightarrow> snd (detect_rsi_signals rsi) = [])
           \<and> (sorted_wrt (\<lambda>a b. b < a) prices \<longrightarrow> fst (detect_rsi_signals rsi) = [])"
proof -
  from assms obtain avg_gain avg_loss where
    g: "rolling_mean period (gain (map Fin prices)) = Inr avg_gain" and
    l: "rolling_mean period (loss (map Fin prices)) = Inr avg_loss"
    by (auto simp: rolling_mean_def)
  define rsi where "rsi = map2 rsi_value avg_gain avg_loss"
  have c: "calculate_rsi (map Fin prices) period = Inr rsi"
    using g l by (simp add: calculate_rsi_def rsi_def)
  have len: "length rsi = length prices"
    using length_rolling_mean [OF g] length_rolling_mean [OF l]
    by (simp add: rsi_def length_gain length_loss)
  have nth: "rsi ! i = rsi_value (avg_gain ! i) (avg_loss ! i)" if "i < length prices" for i
    using that length_rolling_mean [OF g] length_rolling_mean [OF l]
    by (simp add: rsi_def length_gain length_loss)
  have up: "snd (detect_rsi_signals rsi) = []" if inc: "sorted_wrt (<) prices"
  proof (rule no_sell_at_100, intro allI impI)
    fix i assume "i < length rsi"
    with len have i: "i < length prices" by simp
    have "avg_loss ! i = NaN \<or> avg_loss ! i = Fin 0"
      using rolling_mean_zeros [OF l loss_increasing [OF inc]] i by (simp add: length_loss)
    moreover have "avg_gain ! i = NaN \<or> (\<exists>m. avg_gain ! i = Fin m)"
      using rolling_mean_cases [OF g] i by (simp add: length_gain)
    ultimately consider "avg_gain ! i = NaN" | "avg_loss ! i = NaN"
      | m where "avg_gain ! i = Fin m" and "avg_loss ! i = Fin 0"
      by blast
    then show "rsi ! i = NaN \<or> rsi ! i = Fin 100"
    proof cases
      case 1
      then show ?thesis by (simp add: nth [OF i] rsi_value_NaN)
    next
      case 2
      then show ?thesis by (simp add: nth [OF i] rsi_value_NaN_right)
    next
      case 3
      with rsi_value_loss_zero [of m] show ?thesis by (simp add: nth [OF i])
    qed
  qed
  have down: "fst (detect_rsi_signals rsi) = []" if dec: "sorted_wrt (\<lambda>a b. b < a) prices"
  proof (rule no_buy_at_0, intro allI impI)
    fix i assume "i < length rsi"
    with len have i: "i < length prices" by simp
    have "avg_gain ! i = NaN \<or> avg_gain ! i = Fin 0"
      using rolling_mean_zeros [OF g gain_decreasing [OF dec]] i by (simp add: length_gain)
    moreover have "avg_loss ! i = NaN \<or> (\<exists>m. avg_loss ! i = Fin m)"
      using rolling_mean_cases [OF l] i by (simp add: length_loss)
    ultimately consider "avg_gain ! i = NaN" | "avg_loss ! i = NaN"
      | m where "avg_gain ! i = Fin 0" and "avg_loss ! i = Fin m"
      by blast
    then show "rsi ! i = NaN \<or> rsi ! i = Fin 0"
    proof cases
      case 1
      then show ?thesis by (simp add: nth [OF i] rsi_value_NaN)
    next
      case 2
      then show ?thesis by (simp add: nth [OF i] rsi_value_NaN_right)
    next
      case 3
      with rsi_value_gain_zero [of m] show ?thesis by (simp add: nth [OF i])
    qed
  qed
  from c up down show ?thesis by blast
qed

theorem monotone_prices_rsi_signals_witness:
  "(0::int) \<le> 2 \<and> sorted_wrt (<) [1, 2, 4, 5 :: real] \<and> sorted_wrt (\<lambda>a b. b < a) [5, 4, 2, 1 :: real]
   \<and> calculate_rsi (map Fin [1, 2, 4, 5]) 2 = Inr [NaN, Fin 100, Fin 100, Fin 100]
   \<and> snd (detect_rsi_signals [NaN, Fin 100, Fin 100, Fin 100]) = []
   \<and> calculate_rsi (map Fin [5, 4, 2, 1]) 2 = Inr [NaN, Fin 0, Fin 0, Fin 0]
   \<and> fst (detect_rsi_signals [NaN, Fin 0, Fin 0, Fin 0]) = []"
proof -
  have p: "(0::int) \<le> 2" by simp
  have up: "calculate_rsi (map Fin [1, 2, 4, 5]) 2 = Inr [NaN, Fin 100, Fin 100, Fin 100]"
    by (simp add: calculate_rsi_def rolling_mean_def gain_def loss_def diff_def series_where_def
        calc_mean_def rsi_value_def fsub_def fgt_def signed_inf_def upt_rec)
  have down: "calculate_rsi (map Fin [5, 4, 2, 1]) 2 = Inr [NaN, Fin 0, Fin 0, Fin 0]"
    by (simp add: calculate_rsi_def rolling_mean_def gain_def loss_def diff_def series_where_def
        calc_mean_def rsi_value_def fsub_def fgt_def signed_inf_def upt_rec)
  from monotone_prices_rsi_signals [OF p, of "[1, 2, 4, 5]"]
    monotone_prices_rsi_signals [OF p, of "[5, 4, 2, 1]"] up down
  show ?thesis by simp
qed

end
